theory Spec2Isabelle
  imports Main
begin

section \<open>Data model (types.ts)\<close>

text \<open>
  The interfaces of \<^verbatim>\<open>types.ts\<close> as records. Both \<^verbatim>\<open>Chapter\<close> and
  \<^verbatim>\<open>Book\<close> have fields \<^verbatim>\<open>id\<close> and \<^verbatim>\<open>title\<close>; record fields share one name
  space, so they carry a prefix (\<open>c_\<close>, \<open>b_\<close>, \<open>v_\<close>).
  The numbers the code handles are millisecond time stamps and array indices, so
  \<^verbatim>\<open>number\<close> is \<open>int\<close>; \<^verbatim>\<open>duration\<close> is only ever copied.

  A string that may be missing (\<^verbatim>\<open>audioUrl?: string\<close>, \<^verbatim>\<open>roomId: string | null\<close>) is a
  \<open>js_string\<close>. JavaScript has two values for "nothing", \<^verbatim>\<open>null\<close> and
  \<^verbatim>\<open>undefined\<close>, and they are kept apart: both are falsy, but \<^verbatim>\<open>Object.is\<close>, which
  compares the dependencies of \<^verbatim>\<open>useCallback\<close>, tells them apart, and a key that is
  present in a \<^verbatim>\<open>Partial<SyncState>\<close> with the value \<^verbatim>\<open>undefined\<close> puts
  \<^verbatim>\<open>undefined\<close> into a field declared \<^verbatim>\<open>string | null\<close>.
\<close>

datatype js_string = Null | Undefined | Str string

record Chapter =
  c_id :: string
  c_title :: string
  c_text :: string
  audioUrl :: js_string
  duration :: "int option"

record Book =
  b_id :: string
  b_title :: string
  author :: string
  coverImage :: js_string
  chapters :: "Chapter list"
  createdAt :: int

record VoiceOption =
  v_id :: string
  v_name :: string
  description :: string
  modelVoice :: string

datatype ProcessingStatus =
  IDLE | EXTRACTING | SPLITTING | GENERATING_AUDIO | COMPLETED | ERROR

text \<open>\<^verbatim>\<open>type SyncProvider = 'public' | 'github' | 'none'\<close>\<close>

datatype SyncProvider = Public | Github | NoProvider

record SyncState =
  provider :: SyncProvider
  roomId :: js_string
  githubToken :: js_string
  gistId :: js_string
  lastSynced :: "int option"
  isSyncing :: bool

text \<open>
  \<^verbatim>\<open>Partial<SyncState>\<close>: every key may be missing. \<open>None\<close> is a missing key,
  \<open>Some v\<close> a key that is present with the value \<open>v\<close> (for the three strings also
  \<open>Some Undefined\<close>, the key written with \<^verbatim>\<open>undefined\<close>). A provider, a time stamp
  or a flag that is present is a value of the field's type.
\<close>

record PartialSyncState =
  p_provider :: "SyncProvider option"
  p_roomId :: "js_string option"
  p_githubToken :: "js_string option"
  p_gistId :: "js_string option"
  p_lastSynced :: "int option option"
  p_isSyncing :: "bool option"

text \<open>
  JavaScript truthiness of a value of type \<^verbatim>\<open>string | null | undefined\<close>, as the
  conditions \<^verbatim>\<open>if (chapter.audioUrl)\<close>, \<^verbatim>\<open>syncState.githubToken && ...\<close> and
  \<^verbatim>\<open>x || y\<close> read it: \<^verbatim>\<open>null\<close>, \<^verbatim>\<open>undefined\<close> and the empty string are falsy.
\<close>

definition truthy :: "js_string \<Rightarrow> bool" where
  "truthy v = (case v of Str s \<Rightarrow> s \<noteq> [] | _ \<Rightarrow> False)"

section \<open>Constants (constants.ts)\<close>

definition URDU_VOICES :: "VoiceOption list" where
  "URDU_VOICES =
    [\<lparr>v_id = ''1'', v_name = ''Master (Mualim)'',
      description = ''Deep, authoritative voice of a veteran Urdu scholar. Perfect for classics.'',
      modelVoice = ''Kore''\<rparr>,
     \<lparr>v_id = ''2'', v_name = ''Storyteller (Dastango)'',
      description = ''Energetic and expressive narration for fiction and folk tales.'',
      modelVoice = ''Puck''\<rparr>,
     \<lparr>v_id = ''3'', v_name = ''Teacher (Ustad)'',
      description = ''Calm and precise, ideal for educational and instructional texts.'',
      modelVoice = ''Charon''\<rparr>,
     \<lparr>v_id = ''4'', v_name = ''Gentle (Nawa)'',
      description = ''Soft and rhythmic, perfect for Ghazals and delicate poetry.'',
      modelVoice = ''Fenrir''\<rparr>,
     \<lparr>v_id = ''5'', v_name = ''Philosopher (Hakeem)'',
      description = ''Thoughtful and slow-paced narration for deep intellectual works.'',
      modelVoice = ''Zephyr''\<rparr>]"

section \<open>The component's state and its effects\<close>

text \<open>
  What the handlers write besides React state: the browser console, \<^verbatim>\<open>alert\<close>,
  and timers. Each is a log in the state, oldest entry first.
\<close>

datatype console_entry = ConsoleWarn string | ConsoleError string

text \<open>
  A handler is created by a render and reads the state variables of that render
  (\<^verbatim>\<open>books\<close>, \<^verbatim>\<open>syncState\<close>, \<^verbatim>\<open>selectedBook\<close>, \<^verbatim>\<open>selectedVoice\<close>)
  from its closure, also after an \<^verbatim>\<open>await\<close>; it writes through the setters,
  which act on the current state. The closure is therefore a value of its own.
\<close>

record closure =
  cl_books :: "Book list"
  cl_syncState :: SyncState
  cl_selectedBook :: "Book option"
  cl_selectedVoice :: VoiceOption

text \<open>\<^verbatim>\<open>setTimeout(() => refreshLibrary(), 100)\<close>: the delay and the closure of the call.\<close>

record timer =
  t_delay :: nat
  t_closure :: closure

record app_state =
  books :: "Book list"
  syncState :: SyncState
  hasLoadedInitially :: bool
  selectedBook :: "Book option"
  activeChapter :: "Chapter option"
  selectedVoice :: VoiceOption
  status :: ProcessingStatus
  showUploader :: bool
  showSyncModal :: bool
  localStorage :: "(string \<times> string) list"
  alerts :: "string list"
  console :: "console_entry list"
  timers :: "timer list"

definition capture :: "app_state \<Rightarrow> closure" where
  "capture st = \<lparr>cl_books = books st, cl_syncState = syncState st,
     cl_selectedBook = selectedBook st, cl_selectedVoice = selectedVoice st\<rparr>"

text \<open>
  The calls that leave the component and are awaited. An \<^verbatim>\<open>async\<close> handler is
  split at its \<^verbatim>\<open>await\<close>: the first part returns the request it issued (or none, when
  it ran to its end), the second part takes the outcome of the request.
\<close>

datatype payload = FilePayload string | TextPayload js_string

datatype request =
    PullFromGitHub string string
  | PullFromPublic js_string
  | PushToGitHub "Book list" string string
  | PushToPublic "Book list" string
  | GenerateAudio string string
  | ExtractAndSplitText payload bool

text \<open>A promise settles: it resolves with a value or rejects with \<^verbatim>\<open>err.message\<close>.\<close>

datatype 'a outcome = Resolved 'a | Rejected string

section \<open>handleChapterPlay\<close>

text \<open>
  \<^verbatim>\<open>const updatedBooks = books.map(b => ...)\<close> of \<^verbatim>\<open>handleChapterPlay\<close>
  (\<open>play_updatedBooks\<close>): the chapter gets the new \<^verbatim>\<open>audioUrl\<close> in every book
  whose id is the selected book's.
\<close>

definition is_selected :: "Book option \<Rightarrow> Book \<Rightarrow> bool" where
  "is_selected sel b = (case sel of None \<Rightarrow> False | Some sb \<Rightarrow> b_id b = b_id sb)"

definition updatedChapters :: "Chapter \<Rightarrow> string \<Rightarrow> Chapter list \<Rightarrow> Chapter list" where
  "updatedChapters chapter url cs =
     map (\<lambda>c. if c_id c = c_id chapter then c\<lparr>audioUrl := Str url\<rparr> else c) cs"

definition updatedBook :: "Chapter \<Rightarrow> string \<Rightarrow> Book \<Rightarrow> Book" where
  "updatedBook chapter url b = b\<lparr>chapters := updatedChapters chapter url (chapters b)\<rparr>"

definition play_updatedBooks :: "Book list \<Rightarrow> Book option \<Rightarrow> Chapter \<Rightarrow> string \<Rightarrow> Book list" where
  "play_updatedBooks bks sel chapter url =
     map (\<lambda>b. if is_selected sel b then updatedBook chapter url b else b) bks"

text \<open>
  \<^verbatim>\<open>setSelectedBook(updatedBook)\<close> runs inside the map, once for every book that
  matches; the last call decides.
\<close>

definition selectedAfter :: "Book list \<Rightarrow> Book option \<Rightarrow> Chapter \<Rightarrow> string \<Rightarrow> Book option \<Rightarrow> Book option" where
  "selectedAfter bks sel chapter url cur =
     (case filter (is_selected sel) bks of
        [] \<Rightarrow> cur
      | m # ms \<Rightarrow> Some (updatedBook chapter url (last (m # ms))))"

text \<open>\<^verbatim>\<open>updatedBooks.find(...)?.chapters.find(c => c.id === chapter.id)\<close>\<close>

definition currentChapter :: "Book list \<Rightarrow> Book option \<Rightarrow> Chapter \<Rightarrow> Chapter option" where
  "currentChapter ubs sel chapter =
     (case find (is_selected sel) ubs of
        None \<Rightarrow> None
      | Some b \<Rightarrow> find (\<lambda>c. c_id c = c_id chapter) (chapters b))"

definition handleChapterPlay_begin :: "closure \<Rightarrow> Chapter \<Rightarrow> app_state \<Rightarrow> app_state \<times> request option" where
  "handleChapterPlay_begin cl chapter st =
     (if truthy (audioUrl chapter) then (st\<lparr>activeChapter := Some chapter\<rparr>, None)
      else (st\<lparr>status := GENERATING_AUDIO\<rparr>,
            Some (GenerateAudio (c_text chapter) (modelVoice (cl_selectedVoice cl)))))"

definition handleChapterPlay_resume :: "closure \<Rightarrow> Chapter \<Rightarrow> string outcome \<Rightarrow> app_state \<Rightarrow> app_state" where
  "handleChapterPlay_resume cl chapter res st =
     (case res of
        Resolved url \<Rightarrow>
          (let ubs = play_updatedBooks (cl_books cl) (cl_selectedBook cl) chapter url;
               st1 = st\<lparr>selectedBook :=
                        selectedAfter (cl_books cl) (cl_selectedBook cl) chapter url (selectedBook st)\<rparr>;
               st2 = st1\<lparr>books := ubs\<rparr>;
               st3 = (case currentChapter ubs (cl_selectedBook cl) chapter of
                        None \<Rightarrow> st2
                      | Some c \<Rightarrow> st2\<lparr>activeChapter := Some c\<rparr>)
           in st3\<lparr>status := IDLE\<rparr>)
      | Rejected msg \<Rightarrow>
          st\<lparr>console := console st @ [ConsoleError msg],
             status := ERROR,
             alerts := alerts st @ [''Failed to generate audio.'']\<rparr>)"

text \<open>
  The play button of a chapter: \<^verbatim>\<open>disabled={status === ProcessingStatus.GENERATING_AUDIO}\<close>,
  \<^verbatim>\<open>onClick={() => handleChapterPlay(chapter)}\<close>. It is rendered for the chapters
  of \<^verbatim>\<open>selectedBook\<close>; a click on a disabled button, or on a button that is not
  rendered, calls nothing.
\<close>

definition playButton_rendered :: "app_state \<Rightarrow> Chapter \<Rightarrow> bool" where
  "playButton_rendered st chapter =
     (case selectedBook st of None \<Rightarrow> False | Some b \<Rightarrow> chapter \<in> set (chapters b))"

definition playButton_disabled :: "app_state \<Rightarrow> bool" where
  "playButton_disabled st = (status st = GENERATING_AUDIO)"

definition playButton_click :: "Chapter \<Rightarrow> app_state \<Rightarrow> app_state \<times> request option" where
  "playButton_click chapter st =
     (if playButton_rendered st chapter \<and> \<not> playButton_disabled st
      then handleChapterPlay_begin (capture st) chapter st
      else (st, None))"

section \<open>refreshLibrary\<close>

text \<open>The string of a truthy value.\<close>

definition str :: "js_string \<Rightarrow> string" where
  "str v = (case v of Str s \<Rightarrow> s | _ \<Rightarrow> [])"

text \<open>
  The pull that \<^verbatim>\<open>refreshLibrary\<close> awaits, read from the \<^verbatim>\<open>syncState\<close> of its
  closure: \<^verbatim>\<open>pullFromGitHub(token, gistId)\<close>, \<^verbatim>\<open>pullFromPublic(roomId || undefined)\<close>,
  or none, and then \<^verbatim>\<open>remoteBooks\<close> stays \<^verbatim>\<open>null\<close>.
\<close>

definition refreshLibrary_request :: "closure \<Rightarrow> request option" where
  "refreshLibrary_request cl =
     (let s = cl_syncState cl in
      if provider s = Github \<and> truthy (githubToken s) \<and> truthy (gistId s)
      then Some (PullFromGitHub (str (githubToken s)) (str (gistId s)))
      else if provider s = Public
      then Some (PullFromPublic (if truthy (roomId s) then roomId s else Undefined))
      else None)"

text \<open>
  After the \<^verbatim>\<open>await\<close>: \<open>Resolved (Some bs)\<close> is a snapshot, \<open>Resolved None\<close> is
  \<^verbatim>\<open>null\<close> (nothing stored remotely), \<open>Rejected msg\<close> enters the \<^verbatim>\<open>catch\<close>.
  \<open>now\<close> is what \<^verbatim>\<open>Date.now()\<close> returns. Every write is a functional update
  \<^verbatim>\<open>setSyncState(prev => ...)\<close>, so it acts on the current state.
\<close>

definition refreshLibrary_resume :: "int \<Rightarrow> Book list option outcome \<Rightarrow> app_state \<Rightarrow> app_state" where
  "refreshLibrary_resume now res st =
     (case res of
        Resolved (Some remoteBooks) \<Rightarrow>
          st\<lparr>books := remoteBooks,
             syncState := (syncState st)\<lparr>lastSynced := Some now, isSyncing := False\<rparr>,
             hasLoadedInitially := True\<rparr>
      | Resolved None \<Rightarrow>
          st\<lparr>syncState := (syncState st)\<lparr>isSyncing := False\<rparr>\<rparr>
      | Rejected msg \<Rightarrow>
          (let st1 = (if msg = ''UNAUTHORIZED''
                      then st\<lparr>console := console st @ [ConsoleWarn ''GitHub session expired or token revoked.''],
                              syncState := (syncState st)\<lparr>provider := NoProvider, isSyncing := False\<rparr>\<rparr>
                      else st)
           in st1\<lparr>syncState := (syncState st1)\<lparr>isSyncing := False\<rparr>\<rparr>))"

definition refreshLibrary_begin :: "closure \<Rightarrow> bool \<Rightarrow> app_state \<Rightarrow> app_state \<times> request option" where
  "refreshLibrary_begin cl silent st =
     (let st1 = (if \<not> silent then st\<lparr>syncState := (syncState st)\<lparr>isSyncing := True\<rparr>\<rparr> else st)
      in case refreshLibrary_request cl of
           Some r \<Rightarrow> (st1, Some r)
         | None \<Rightarrow> (st1\<lparr>syncState := (syncState st1)\<lparr>isSyncing := False\<rparr>\<rparr>, None))"

section \<open>handleSyncUpdate\<close>

text \<open>\<^verbatim>\<open>localStorage\<close>: string keys and string values.\<close>

fun setItem :: "string \<Rightarrow> string \<Rightarrow> (string \<times> string) list \<Rightarrow> (string \<times> string) list" where
  "setItem k v [] = [(k, v)]"
| "setItem k v ((k', v') # kvs) = (if k' = k then (k, v) # kvs else (k', v') # setItem k v kvs)"

definition removeItem :: "string \<Rightarrow> (string \<times> string) list \<Rightarrow> (string \<times> string) list" where
  "removeItem k kvs = filter (\<lambda>kv. fst kv \<noteq> k) kvs"

definition getItem :: "string \<Rightarrow> (string \<times> string) list \<Rightarrow> string option" where
  "getItem k kvs = map_of kvs k"

definition provider_string :: "SyncProvider \<Rightarrow> string" where
  "provider_string p = (case p of Public \<Rightarrow> ''public'' | Github \<Rightarrow> ''github'' | NoProvider \<Rightarrow> ''none'')"

text \<open>\<^verbatim>\<open>{ ...syncState, ...newState }\<close>: a key of \<^verbatim>\<open>newState\<close> that is present wins.\<close>

definition spread :: "SyncState \<Rightarrow> PartialSyncState \<Rightarrow> SyncState" where
  "spread s n =
     \<lparr>provider = (case p_provider n of None \<Rightarrow> provider s | Some v \<Rightarrow> v),
      roomId = (case p_roomId n of None \<Rightarrow> roomId s | Some v \<Rightarrow> v),
      githubToken = (case p_githubToken n of None \<Rightarrow> githubToken s | Some v \<Rightarrow> v),
      gistId = (case p_gistId n of None \<Rightarrow> gistId s | Some v \<Rightarrow> v),
      lastSynced = (case p_lastSynced n of None \<Rightarrow> lastSynced s | Some v \<Rightarrow> v),
      isSyncing = (case p_isSyncing n of None \<Rightarrow> isSyncing s | Some v \<Rightarrow> v)\<rparr>"

text \<open>
  \<^verbatim>\<open>syncState\<close> and \<^verbatim>\<open>refreshLibrary\<close> are the ones of the handler's closure: the
  new state is built from the closure's \<^verbatim>\<open>syncState\<close>, and the timer calls the
  closure's \<^verbatim>\<open>refreshLibrary\<close>. Every provider name is a non-empty string, so
  \<^verbatim>\<open>if (updated.provider)\<close> always holds.
\<close>

definition handleSyncUpdate :: "closure \<Rightarrow> PartialSyncState \<Rightarrow> app_state \<Rightarrow> app_state" where
  "handleSyncUpdate cl newState st =
     (let updated = spread (cl_syncState cl) newState;
          ls1 = setItem ''sync_provider'' (provider_string (provider updated)) (localStorage st);
          ls2 = (if truthy (roomId updated) then setItem ''sync_room_id'' (str (roomId updated)) ls1 else ls1);
          ls3 = (if truthy (githubToken updated)
                 then setItem ''sync_github_token'' (str (githubToken updated)) ls2
                 else removeItem ''sync_github_token'' ls2);
          ls4 = (if truthy (gistId updated)
                 then setItem ''sync_gist_id'' (str (gistId updated)) ls3
                 else removeItem ''sync_gist_id'' ls3)
      in st\<lparr>syncState := updated,
            localStorage := ls4,
            showSyncModal := False,
            hasLoadedInitially := False,
            timers := timers st @ [\<lparr>t_delay = 100, t_closure = cl\<rparr>]\<rparr>)"

text \<open>The timer fires: \<^verbatim>\<open>refreshLibrary()\<close> of the closure that set it, not silent.\<close>

definition timer_fired :: "timer \<Rightarrow> app_state \<Rightarrow> app_state \<times> request option" where
  "timer_fired t st = refreshLibrary_begin (t_closure t) False st"

section \<open>persistLibrary\<close>

definition persistLibrary_request :: "closure \<Rightarrow> Book list \<Rightarrow> request option" where
  "persistLibrary_request cl updatedBooks =
     (let s = cl_syncState cl in
      if provider s = Github \<and> truthy (githubToken s) \<and> truthy (gistId s)
      then Some (PushToGitHub updatedBooks (str (githubToken s)) (str (gistId s)))
      else if provider s = Public \<and> truthy (roomId s)
      then Some (PushToPublic updatedBooks (str (roomId s)))
      else None)"

definition persistLibrary_resume :: "int \<Rightarrow> unit outcome \<Rightarrow> app_state \<Rightarrow> app_state" where
  "persistLibrary_resume now res st =
     (case res of
        Resolved _ \<Rightarrow> st\<lparr>syncState := (syncState st)\<lparr>lastSynced := Some now\<rparr>\<rparr>
      | Rejected msg \<Rightarrow>
          (if msg = ''UNAUTHORIZED''
           then st\<lparr>alerts := alerts st @ [''Sync failed: GitHub token invalid. Reconnecting...''],
                   showSyncModal := True\<rparr>
           else st))"

text \<open>
  When neither branch pushes, nothing is awaited and the function goes on to
  \<^verbatim>\<open>setSyncState(prev => ({ ...prev, lastSynced: Date.now() }))\<close> at once.
\<close>

definition persistLibrary_begin :: "closure \<Rightarrow> int \<Rightarrow> Book list \<Rightarrow> app_state \<Rightarrow> app_state \<times> request option" where
  "persistLibrary_begin cl now updatedBooks st =
     (case persistLibrary_request cl updatedBooks of
        Some r \<Rightarrow> (st, Some r)
      | None \<Rightarrow> (persistLibrary_resume now (Resolved ()) st, None))"

section \<open>handleDeleteBook\<close>

text \<open>\<open>confirmed\<close> is the answer of \<^verbatim>\<open>window.confirm\<close>.\<close>

definition handleDeleteBook :: "closure \<Rightarrow> string \<Rightarrow> bool \<Rightarrow> int \<Rightarrow> app_state \<Rightarrow> app_state \<times> request option" where
  "handleDeleteBook cl ident confirmed now st =
     (if \<not> confirmed then (st, None)
      else
        (let remaining = filter (\<lambda>b. b_id b \<noteq> ident) (cl_books cl);
             st1 = st\<lparr>books := remaining\<rparr>;
             st2 = (case cl_selectedBook cl of
                      None \<Rightarrow> st1
                    | Some sb \<Rightarrow> if b_id sb = ident then st1\<lparr>selectedBook := None\<rparr> else st1)
         in persistLibrary_begin cl now remaining st2))"

section \<open>handleUpload\<close>

text \<open>
  \<^verbatim>\<open>Date.now().toString()\<close> and the template \<^verbatim>\<open>`${Date.now()}-${i}`\<close>: an integer
  in decimal digits.
\<close>

function digits :: "nat \<Rightarrow> string" where
  "digits n = (if n < 10 then [char_of (48 + n)] else digits (n div 10) @ [char_of (48 + n mod 10)])"
  by pat_completeness auto
termination
  by (relation "measure (\<lambda>n. n)") auto

declare digits.simps [simp del]

definition toString :: "int \<Rightarrow> string" where
  "toString i = (if i < 0 then CHR ''-'' # digits (nat (- i)) else digits (nat i))"

text \<open>
  The argument of \<^verbatim>\<open>handleUpload\<close>: \<^verbatim>\<open>{ file?: File, text?: string, customTitle?: string }\<close>.
  A \<^verbatim>\<open>File\<close> is opaque to the handler (it is only passed on); it is a string here.
\<close>

record upload_input =
  u_file :: "string option"
  u_text :: js_string
  u_customTitle :: js_string

text \<open>
  Modelled from the spec: the value \<^verbatim>\<open>GeminiService.extractAndSplitText\<close> resolves with.
  Its declaration (services/geminiService.ts) is not among the sources; the spec gives
  \<^verbatim>\<open>extractAndSplit(rawInput) -> { title, chapters: [{title, text}] }\<close>, and the handler
  reads \<^verbatim>\<open>result.title\<close> (through \<^verbatim>\<open>||\<close>, so it may be missing or empty) and
  \<^verbatim>\<open>c.title\<close>, \<^verbatim>\<open>c.text\<close> of every element of \<^verbatim>\<open>result.chapters\<close>.
\<close>

record ExtractionResult =
  r_title :: js_string
  r_chapters :: "(string \<times> string) list"

definition handleUpload_begin :: "upload_input \<Rightarrow> app_state \<Rightarrow> app_state \<times> request option" where
  "handleUpload_begin input st =
     (st\<lparr>status := EXTRACTING\<rparr>,
      Some (ExtractAndSplitText
              (case u_file input of Some f \<Rightarrow> FilePayload f | None \<Rightarrow> TextPayload (u_text input))
              (u_file input \<noteq> None)))"

text \<open>
  \<open>clock k\<close> is what the \<open>k\<close>-th call of \<^verbatim>\<open>Date.now()\<close> after the \<^verbatim>\<open>await\<close> returns:
  call \<open>0\<close> for the book's id, one call per chapter, one for \<^verbatim>\<open>createdAt\<close>, and one
  more in \<^verbatim>\<open>persistLibrary\<close> when it does not push.
\<close>

definition newChapters :: "(nat \<Rightarrow> int) \<Rightarrow> (string \<times> string) list \<Rightarrow> Chapter list" where
  "newChapters clock cs =
     map (\<lambda>(i, c). \<lparr>c_id = toString (clock (Suc i)) @ ''-'' @ toString (int i),
                     c_title = fst c, c_text = snd c, audioUrl = Undefined, duration = None\<rparr>)
         (enumerate 0 cs)"

definition newBook :: "(nat \<Rightarrow> int) \<Rightarrow> upload_input \<Rightarrow> ExtractionResult \<Rightarrow> Book" where
  "newBook clock input result =
     \<lparr>b_id = toString (clock 0),
      b_title = (if truthy (u_customTitle input) then str (u_customTitle input)
                 else if truthy (r_title result) then str (r_title result)
                 else ''Untitled Dastan''),
      author = ''Urdu Scholar'',
      coverImage = Undefined,
      chapters = newChapters clock (r_chapters result),
      createdAt = clock (Suc (length (r_chapters result)))\<rparr>"

definition handleUpload_resume ::
  "closure \<Rightarrow> (nat \<Rightarrow> int) \<Rightarrow> upload_input \<Rightarrow> ExtractionResult outcome \<Rightarrow> app_state \<Rightarrow> app_state \<times> request option" where
  "handleUpload_resume cl clock input res st =
     (case res of
        Resolved result \<Rightarrow>
          (let updatedBooks = newBook clock input result # cl_books cl
           in persistLibrary_begin cl (clock (Suc (Suc (length (r_chapters result))))) updatedBooks
                (st\<lparr>books := updatedBooks, showUploader := False, status := IDLE\<rparr>))
      | Rejected msg \<Rightarrow>
          (st\<lparr>console := console st @ [ConsoleError msg],
              status := ERROR,
              alerts := alerts st @ [''Failed to process the document. Please try again.'']\<rparr>,
           None))"

section \<open>The component as a transition system\<close>

text \<open>
  JavaScript runs one task at a time: a user event or a settled promise runs its handler
  up to the next \<^verbatim>\<open>await\<close>. The system is the component's state together with the
  requests that are in flight, each with the continuation that waits for it (the handler,
  its closure and its arguments).
\<close>

datatype cont =
    ChapterPlayCont closure Chapter
  | UploadCont closure upload_input
  | PersistCont
  | RefreshCont

datatype response =
    AudioResponse "string outcome"
  | ExtractResponse "nat \<Rightarrow> int" "ExtractionResult outcome"
  | PushResponse int "unit outcome"
  | PullResponse int "Book list option outcome"

record sys =
  app :: app_state
  inflight :: "(request \<times> cont) list"

datatype event =
    PlayClick Chapter
  | OpenUploader
  | CloseUploader
  | OpenSyncModal
  | CloseSyncModal
  | UploadSubmit upload_input
  | DeleteClick string bool int
  | SelectBook Book
  | SyncUpdate PartialSyncState
  | Mount
  | IntervalTick
  | TimerFired nat
  | Settled nat response

text \<open>A handler ran up to its \<^verbatim>\<open>await\<close> (the request joins the ones in flight) or to its end.\<close>

definition issue :: "cont \<Rightarrow> app_state \<times> request option \<Rightarrow> (request \<times> cont) list \<Rightarrow> sys" where
  "issue k r fl =
     (case snd r of
        None \<Rightarrow> \<lparr>app = fst r, inflight = fl\<rparr>
      | Some q \<Rightarrow> \<lparr>app = fst r, inflight = fl @ [(q, k)]\<rparr>)"

text \<open>The continuation of a settled request; a response of the wrong kind settles nothing.\<close>

definition resume :: "cont \<Rightarrow> response \<Rightarrow> (request \<times> cont) list \<Rightarrow> app_state \<Rightarrow> sys option" where
  "resume k rsp fl st =
     (case (k, rsp) of
        (ChapterPlayCont cl chapter, AudioResponse res) \<Rightarrow>
          Some \<lparr>app = handleChapterPlay_resume cl chapter res st, inflight = fl\<rparr>
      | (UploadCont cl input, ExtractResponse clock res) \<Rightarrow>
          Some (issue PersistCont (handleUpload_resume cl clock input res st) fl)
      | (PersistCont, PushResponse now res) \<Rightarrow>
          Some \<lparr>app = persistLibrary_resume now res st, inflight = fl\<rparr>
      | (RefreshCont, PullResponse now res) \<Rightarrow>
          Some \<lparr>app = refreshLibrary_resume now res st, inflight = fl\<rparr>
      | _ \<Rightarrow> None)"

text \<open>
  The events and what they call. The uploader and the sync modal are rendered only while
  \<^verbatim>\<open>showUploader\<close> and \<^verbatim>\<open>showSyncModal\<close> hold, so only then can they call
  \<^verbatim>\<open>onSubmit\<close>, \<^verbatim>\<open>onUpdate\<close> and \<^verbatim>\<open>onClose\<close>; the library list and the play buttons are part
  of the page beside them, whether a modal is shown or not. The components themselves
  (\<^verbatim>\<open>Uploader\<close>, \<^verbatim>\<open>SyncModal\<close>, \<^verbatim>\<open>Library\<close>) are not among the sources: what they
  pass to the handlers is an argument of the event, and whether \<^verbatim>\<open>Uploader\<close> holds a
  submission back while its \<^verbatim>\<open>isLoading\<close> prop is set is not known.
\<close>

definition handle :: "event \<Rightarrow> sys \<Rightarrow> sys" where
  "handle e s =
     (case e of
        PlayClick chapter \<Rightarrow>
          issue (ChapterPlayCont (capture (app s)) chapter) (playButton_click chapter (app s)) (inflight s)
      | OpenUploader \<Rightarrow> s\<lparr>app := (app s)\<lparr>showUploader := True\<rparr>\<rparr>
      | CloseUploader \<Rightarrow>
          (if showUploader (app s) then s\<lparr>app := (app s)\<lparr>showUploader := False\<rparr>\<rparr> else s)
      | OpenSyncModal \<Rightarrow> s\<lparr>app := (app s)\<lparr>showSyncModal := True\<rparr>\<rparr>
      | CloseSyncModal \<Rightarrow>
          (if showSyncModal (app s) then s\<lparr>app := (app s)\<lparr>showSyncModal := False\<rparr>\<rparr> else s)
      | UploadSubmit input \<Rightarrow>
          (if showUploader (app s)
           then issue (UploadCont (capture (app s)) input) (handleUpload_begin input (app s)) (inflight s)
           else s)
      | DeleteClick ident confirmed now \<Rightarrow>
          issue PersistCont (handleDeleteBook (capture (app s)) ident confirmed now (app s)) (inflight s)
      | SelectBook b \<Rightarrow> s\<lparr>app := (app s)\<lparr>selectedBook := Some b\<rparr>\<rparr>
      | SyncUpdate newState \<Rightarrow>
          (if showSyncModal (app s)
           then s\<lparr>app := handleSyncUpdate (capture (app s)) newState (app s)\<rparr>
           else s)
      | Mount \<Rightarrow> issue RefreshCont (refreshLibrary_begin (capture (app s)) False (app s)) (inflight s)
      | IntervalTick \<Rightarrow> issue RefreshCont (refreshLibrary_begin (capture (app s)) True (app s)) (inflight s)
      | TimerFired i \<Rightarrow>
          (if i < length (timers (app s))
           then issue RefreshCont
                  (timer_fired (timers (app s) ! i)
                     ((app s)\<lparr>timers := take i (timers (app s)) @ drop (Suc i) (timers (app s))\<rparr>))
                  (inflight s)
           else s)
      | Settled i rsp \<Rightarrow>
          (if i < length (inflight s)
           then (case resume (snd (inflight s ! i)) rsp
                        (take i (inflight s) @ drop (Suc i) (inflight s)) (app s) of
                   None \<Rightarrow> s
                 | Some s' \<Rightarrow> s')
           else s))"

text \<open>
  \<^verbatim>\<open>useEffect(() => { refreshLibrary(); setInterval(() => refreshLibrary(true), 60000); ... },
  [refreshLibrary])\<close> with \<^verbatim>\<open>refreshLibrary\<close> memoised on \<^verbatim>\<open>[syncState.provider,
  syncState.githubToken, syncState.gistId, syncState.roomId]\<close>: after a render in which one
  of the four has changed (compared with \<^verbatim>\<open>Object.is\<close>: strings by their characters,
  and \<^verbatim>\<open>null\<close> is not \<^verbatim>\<open>undefined\<close>), the effect runs again and calls
  \<^verbatim>\<open>refreshLibrary()\<close> of the new render. The interval is set again each time, so a tick calls the
  \<^verbatim>\<open>refreshLibrary\<close> of the current configuration.
\<close>

definition deps :: "app_state \<Rightarrow> SyncProvider \<times> js_string \<times> js_string \<times> js_string" where
  "deps st = (provider (syncState st), githubToken (syncState st), gistId (syncState st), roomId (syncState st))"

definition after_render :: "app_state \<Rightarrow> sys \<Rightarrow> sys" where
  "after_render before s =
     (if deps (app s) \<noteq> deps before
      then issue RefreshCont (refreshLibrary_begin (capture (app s)) False (app s)) (inflight s)
      else s)"

definition step :: "event \<Rightarrow> sys \<Rightarrow> sys" where
  "step e s = after_render (app s) (handle e s)"

fun run :: "event list \<Rightarrow> sys \<Rightarrow> sys" where
  "run [] s = s"
| "run (e # es) s = run es (step e s)"

text \<open>The generation requests among the requests in flight.\<close>

definition is_generation :: "request \<times> cont \<Rightarrow> bool" where
  "is_generation rc = (case fst rc of GenerateAudio _ _ \<Rightarrow> True | _ \<Rightarrow> False)"

definition is_pull :: "request \<times> cont \<Rightarrow> bool" where
  "is_pull rc = (case fst rc of PullFromGitHub _ _ \<Rightarrow> True | PullFromPublic _ \<Rightarrow> True | _ \<Rightarrow> False)"

definition generations :: "sys \<Rightarrow> (request \<times> cont) list" where
  "generations s = filter is_generation (inflight s)"

definition pulls :: "sys \<Rightarrow> (request \<times> cont) list" where
  "pulls s = filter is_pull (inflight s)"

text \<open>The events of an upload: the submission and the completion of the extraction.\<close>

definition upload_event :: "event \<Rightarrow> bool" where
  "upload_event e =
     (case e of
        UploadSubmit _ \<Rightarrow> True
      | Settled _ (ExtractResponse _ _) \<Rightarrow> True
      | _ \<Rightarrow> False)"

text \<open>
  Two facts about the requests in flight that every step keeps, as long as no upload
  takes part: a request is a generation request exactly when \<^verbatim>\<open>handleChapterPlay\<close>
  waits for it, and while a generation request is in flight the status is
  \<^verbatim>\<open>GENERATING_AUDIO\<close> and there is no second one.
\<close>

definition is_play :: "cont \<Rightarrow> bool" where
  "is_play k = (case k of ChapterPlayCont _ _ \<Rightarrow> True | _ \<Rightarrow> False)"

definition paired :: "request \<times> cont \<Rightarrow> bool" where
  "paired rc = (is_generation rc = is_play (snd rc))"

definition gen_inv :: "sys \<Rightarrow> bool" where
  "gen_inv s =
     (list_all paired (inflight s) \<and> length (generations s) \<le> 1 \<and>
      (generations s = [] \<or> status (app s) = GENERATING_AUDIO))"

section \<open>Example values\<close>

definition ex_chapter1 :: Chapter where
  "ex_chapter1 = \<lparr>c_id = ''c1'', c_title = ''Fasl 1'', c_text = ''alif'', audioUrl = Undefined, duration = None\<rparr>"

definition ex_chapter2 :: Chapter where
  "ex_chapter2 = \<lparr>c_id = ''c2'', c_title = ''Fasl 2'', c_text = ''be'', audioUrl = Str ''blob:a2'', duration = None\<rparr>"

text \<open>A chapter that is in no book.\<close>

definition ex_missing_chapter :: Chapter where
  "ex_missing_chapter = \<lparr>c_id = ''c7'', c_title = ''Fasl 7'', c_text = ''he'', audioUrl = Undefined, duration = None\<rparr>"

definition ex_chapter3 :: Chapter where
  "ex_chapter3 = \<lparr>c_id = ''c3'', c_title = ''Fasl 3'', c_text = ''jim'', audioUrl = Undefined, duration = None\<rparr>"

definition ex_book :: Book where
  "ex_book = \<lparr>b_id = ''b1'', b_title = ''Dastan'', author = ''Urdu Scholar'', coverImage = Undefined,
     chapters = [ex_chapter1, ex_chapter2, ex_chapter3], createdAt = 1\<rparr>"

definition ex_remote_book :: Book where
  "ex_remote_book = \<lparr>b_id = ''b9'', b_title = ''Qissa'', author = ''Urdu Scholar'', coverImage = Undefined,
     chapters = [], createdAt = 9\<rparr>"

definition ex_syncState :: SyncState where
  "ex_syncState = \<lparr>provider = Public, roomId = Str ''room'', githubToken = Null, gistId = Null,
     lastSynced = Some 7, isSyncing = False\<rparr>"

definition ex_state :: app_state where
  "ex_state = \<lparr>books = [ex_book], syncState = ex_syncState, hasLoadedInitially = True,
     selectedBook = Some ex_book, activeChapter = None, selectedVoice = hd URDU_VOICES,
     status = IDLE, showUploader = False, showSyncModal = False, localStorage = [],
     alerts = [], console = [], timers = []\<rparr>"

definition ex_sys :: sys where
  "ex_sys = \<lparr>app = ex_state, inflight = []\<rparr>"

text \<open>The same page with the private provider, and the same page while a generation runs.\<close>

definition ex_github_state :: app_state where
  "ex_github_state = ex_state\<lparr>syncState :=
     ex_syncState\<lparr>provider := Github, githubToken := Str ''ghp_token'', gistId := Str ''gist1''\<rparr>\<rparr>"

definition ex_generating_state :: app_state where
  "ex_generating_state = ex_state\<lparr>status := GENERATING_AUDIO\<rparr>"

definition ex_syncing_state :: app_state where
  "ex_syncing_state = ex_state\<lparr>syncState := ex_syncState\<lparr>isSyncing := True\<rparr>\<rparr>"

definition ex_local_state :: app_state where
  "ex_local_state = ex_state\<lparr>syncState := ex_syncState\<lparr>provider := NoProvider\<rparr>\<rparr>"

definition ex_tokenless_state :: app_state where
  "ex_tokenless_state = ex_state\<lparr>syncState := ex_syncState\<lparr>provider := Github\<rparr>\<rparr>"

definition ex_input :: upload_input where
  "ex_input = \<lparr>u_file = None, u_text = Str ''dal'', u_customTitle = Undefined\<rparr>"

definition ex_result :: ExtractionResult where
  "ex_result = \<lparr>r_title = Str ''Nai Dastan'', r_chapters = [(''Fasl'', ''dal'')]\<rparr>"

definition ex_clock :: "nat \<Rightarrow> int" where
  "ex_clock k = 1000 + int k"

definition ex_to_github :: PartialSyncState where
  "ex_to_github = \<lparr>p_provider = Some Github, p_roomId = None, p_githubToken = Some (Str ''ghp_token''),
     p_gistId = Some (Str ''gist1''), p_lastSynced = None, p_isSyncing = None\<rparr>"

text \<open>
  An upload is submitted, a chapter is played while the extraction runs, the extraction
  completes, and another chapter is played.
\<close>

definition ex_upload_race :: "event list" where
  "ex_upload_race =
     [OpenUploader, UploadSubmit ex_input, PlayClick ex_chapter1,
      Settled 0 (ExtractResponse ex_clock (Resolved ex_result)), PlayClick ex_chapter3]"

text \<open>The same, with the uploader closed (\<^verbatim>\<open>onClose\<close>) before the first play.\<close>

definition ex_upload_race_closed :: "event list" where
  "ex_upload_race_closed =
     [OpenUploader, UploadSubmit ex_input, CloseUploader, PlayClick ex_chapter1,
      Settled 0 (ExtractResponse ex_clock (Resolved ex_result)), PlayClick ex_chapter3]"

text \<open>
  A chapter is played; while its audio is generated the interval's pull brings a library
  that no longer holds the book; then the audio arrives.
\<close>

definition ex_pull_during_generation :: "event list" where
  "ex_pull_during_generation =
     [PlayClick ex_chapter1, IntervalTick,
      Settled 1 (PullResponse 50 (Resolved (Some [ex_remote_book])))]"

definition ex_audio_arrives :: event where
  "ex_audio_arrives = Settled 0 (AudioResponse (Resolved ''blob:a1''))"

text \<open>Two plays of chapters without audio, the second before the first generation settles.\<close>

definition ex_two_plays :: "event list" where
  "ex_two_plays = [PlayClick ex_chapter1, PlayClick ex_chapter3]"

text \<open>The pull at mount is still in flight when the interval ticks.\<close>

definition ex_slow_pull :: "event list" where
  "ex_slow_pull = [Mount, IntervalTick]"

text \<open>
  A pull of the public room is in flight, the user switches to the private provider, and
  the pull completes with the room's snapshot.
\<close>

definition ex_switch_before :: "event list" where
  "ex_switch_before = [Mount, OpenSyncModal, SyncUpdate ex_to_github]"

definition ex_pull_completes :: event where
  "ex_pull_completes = Settled 0 (PullResponse 50 (Resolved (Some [ex_remote_book])))"

text \<open>
  The user moves to another room: the effect pulls the new room at once, and the timer of
  \<^verbatim>\<open>handleSyncUpdate\<close> fires 100 ms later.
\<close>

definition ex_to_room2 :: PartialSyncState where
  "ex_to_room2 = \<lparr>p_provider = None, p_roomId = Some (Str ''room2''), p_githubToken = None,
     p_gistId = None, p_lastSynced = None, p_isSyncing = None\<rparr>"

text \<open>The page with the sync modal open, and updates that change no field, or clear the room.\<close>

definition ex_modal_sys :: sys where
  "ex_modal_sys = \<lparr>app = ex_state\<lparr>showSyncModal := True\<rparr>, inflight = []\<rparr>"

definition ex_empty_update :: PartialSyncState where
  "ex_empty_update = \<lparr>p_provider = None, p_roomId = None, p_githubToken = None,
     p_gistId = None, p_lastSynced = None, p_isSyncing = None\<rparr>"

definition ex_clear_room :: PartialSyncState where
  "ex_clear_room = \<lparr>p_provider = None, p_roomId = Some Null, p_githubToken = None,
     p_gistId = None, p_lastSynced = None, p_isSyncing = None\<rparr>"

definition ex_stored_state :: app_state where
  "ex_stored_state = ex_state\<lparr>localStorage := [(''sync_room_id'', ''room'')]\<rparr>"

definition ex_room_switch :: "event list" where
  "ex_room_switch = [OpenSyncModal, SyncUpdate ex_to_room2, TimerFired 0]"

section \<open>Auxiliary facts\<close>

lemma filter_drop_nth_other:
  assumes "i < length xs" and "\<not> P (xs ! i)"
  shows "filter P (take i xs @ drop (Suc i) xs) = filter P xs"
proof -
  have "filter P xs = filter P (take i xs @ xs ! i # drop (Suc i) xs)"
    using id_take_nth_drop[OF assms(1)] by simp
  with assms(2) show ?thesis by simp
qed

lemma filter_drop_nth_hit:
  assumes "i < length xs" and "P (xs ! i)"
  shows "length (filter P xs) = Suc (length (filter P (take i xs @ drop (Suc i) xs)))"
proof -
  have "filter P xs = filter P (take i xs @ xs ! i # drop (Suc i) xs)"
    using id_take_nth_drop[OF assms(1)] by simp
  with assms(2) show ?thesis by simp
qed

lemma list_all_drop_nth:
  "list_all P xs \<Longrightarrow> list_all P (take i xs @ drop (Suc i) xs)"
  by (auto simp: list_all_iff dest: in_set_takeD in_set_dropD)

lemma truthy_str: "truthy v \<Longrightarrow> Str (str v) = v"
  by (cases v) (simp_all add: truthy_def str_def)

lemma getItem_setItem: "getItem k (setItem k' v kvs) = (if k = k' then Some v else getItem k kvs)"
  by (induction kvs) (auto simp: getItem_def)

lemma getItem_removeItem: "getItem k (removeItem k' kvs) = (if k = k' then None else getItem k kvs)"
  by (induction kvs) (auto simp: getItem_def removeItem_def)

subsection \<open>What the handlers leave alone\<close>

lemma refreshLibrary_begin_status: "status (fst (refreshLibrary_begin cl silent st)) = status st"
  by (simp add: refreshLibrary_begin_def Let_def split: option.splits)

lemma refreshLibrary_begin_request:
  "snd (refreshLibrary_begin cl silent st) = Some q \<Longrightarrow> \<not> is_generation (q, k)"
  by (auto simp: refreshLibrary_begin_def refreshLibrary_request_def Let_def is_generation_def
      split: option.splits if_splits)

lemma persistLibrary_begin_status: "status (fst (persistLibrary_begin cl now bks st)) = status st"
  by (simp add: persistLibrary_begin_def persistLibrary_resume_def split: option.splits)

lemma persistLibrary_begin_request:
  "snd (persistLibrary_begin cl now bks st) = Some q \<Longrightarrow> \<not> is_generation (q, k)"
  by (auto simp: persistLibrary_begin_def persistLibrary_request_def Let_def is_generation_def
      split: option.splits if_splits)

lemma handleDeleteBook_status: "status (fst (handleDeleteBook cl ident confirmed now st)) = status st"
  by (simp add: handleDeleteBook_def Let_def persistLibrary_begin_status split: option.splits)

lemma handleDeleteBook_request:
  "snd (handleDeleteBook cl ident confirmed now st) = Some q \<Longrightarrow> \<not> is_generation (q, k)"
  by (auto simp: handleDeleteBook_def Let_def split: if_splits dest: persistLibrary_begin_request)

lemma handleSyncUpdate_status: "status (handleSyncUpdate cl n st) = status st"
  by (simp add: handleSyncUpdate_def Let_def)

subsection \<open>Attaching audio where the chapter is missing\<close>

lemma updatedChapters_same:
  "\<forall>c\<in>set cs. c_id c \<noteq> c_id chapter \<Longrightarrow> updatedChapters chapter url cs = cs"
  by (induction cs) (simp_all add: updatedChapters_def)

lemma play_updatedBooks_same:
  "\<forall>b\<in>set bks. is_selected sel b \<longrightarrow> (\<forall>c\<in>set (chapters b). c_id c \<noteq> c_id chapter)
   \<Longrightarrow> play_updatedBooks bks sel chapter url = bks"
  by (induction bks) (simp_all add: play_updatedBooks_def updatedBook_def updatedChapters_same)

lemma currentChapter_missing:
  assumes "\<forall>b\<in>set bks. is_selected sel b \<longrightarrow> (\<forall>c\<in>set (chapters b). c_id c \<noteq> c_id chapter)"
  shows "currentChapter bks sel chapter = None"
proof (cases "find (is_selected sel) bks")
  case None
  then show ?thesis by (simp add: currentChapter_def)
next
  case (Some b)
  then have "b \<in> set bks" "is_selected sel b"
    by (auto simp: find_Some_iff)
  with assms have "\<forall>c\<in>set (chapters b). c_id c \<noteq> c_id chapter" by blast
  then have "find (\<lambda>c. c_id c = c_id chapter) (chapters b) = None"
    by (simp add: find_None_iff)
  with Some show ?thesis by (simp add: currentChapter_def)
qed

subsection \<open>The generation invariant\<close>

lemma gen_inv_issue_other:
  assumes "gen_inv s"
    and "status (fst r) = status (app s)"
    and "\<And>q. snd r = Some q \<Longrightarrow> \<not> is_generation (q, k)"
    and "\<not> is_play k"
  shows "gen_inv (issue k r (inflight s))"
  using assms
  by (cases "snd r") (auto simp: gen_inv_def issue_def generations_def paired_def)

lemma gen_inv_app:
  "gen_inv s \<Longrightarrow> status st' = status (app s) \<Longrightarrow> gen_inv (s\<lparr>app := st'\<rparr>)"
  by (simp add: gen_inv_def generations_def)

lemma gen_inv_refresh:
  "gen_inv s \<Longrightarrow> status st = status (app s)
   \<Longrightarrow> gen_inv (issue RefreshCont (refreshLibrary_begin cl silent st) (inflight s))"
  by (rule gen_inv_issue_other)
     (auto simp: refreshLibrary_begin_status is_play_def dest: refreshLibrary_begin_request)

lemma gen_inv_play:
  assumes "gen_inv s"
  shows "gen_inv (issue (ChapterPlayCont cl chapter) (playButton_click chapter (app s)) (inflight s))"
proof (cases "playButton_rendered (app s) chapter \<and> \<not> playButton_disabled (app s)")
  case False
  then have "playButton_click chapter (app s) = (app s, None)"
    by (auto simp: playButton_click_def)
  with assms show ?thesis by (simp add: issue_def gen_inv_def generations_def)
next
  case enabled: True
  then have "status (app s) \<noteq> GENERATING_AUDIO" by (simp add: playButton_disabled_def)
  with assms have none: "generations s = []" by (simp add: gen_inv_def)
  show ?thesis
  proof (cases "truthy (audioUrl chapter)")
    case True
    with enabled assms show ?thesis
      by (simp add: playButton_click_def handleChapterPlay_begin_def issue_def gen_inv_def generations_def)
  next
    case False
    with enabled assms none show ?thesis
      by (simp add: playButton_click_def handleChapterPlay_begin_def issue_def gen_inv_def
          generations_def paired_def is_generation_def is_play_def)
  qed
qed

lemma gen_inv_settled:
  assumes inv: "gen_inv s" and i: "i < length (inflight s)"
    and r: "resume (snd (inflight s ! i)) rsp (take i (inflight s) @ drop (Suc i) (inflight s)) (app s) = Some s'"
    and nu: "\<not> upload_event (Settled i rsp)"
  shows "gen_inv s'"
proof -
  let ?fl = "take i (inflight s) @ drop (Suc i) (inflight s)"
  from inv have all: "list_all paired (inflight s)" by (simp add: gen_inv_def)
  then have pi: "paired (inflight s ! i)" using i by (simp add: list_all_length)
  have all': "list_all paired ?fl" using all by (rule list_all_drop_nth)
  show ?thesis
  proof (cases "snd (inflight s ! i)")
    case (ChapterPlayCont cl ch)
    with r obtain res where
      s': "s' = \<lparr>app = handleChapterPlay_resume cl ch res (app s), inflight = ?fl\<rparr>"
      by (auto simp: resume_def split: response.splits)
    from ChapterPlayCont pi have "is_generation (inflight s ! i)"
      by (simp add: paired_def is_play_def)
    from filter_drop_nth_hit[OF i, of is_generation, OF this] inv
    have "filter is_generation ?fl = []" by (simp add: gen_inv_def generations_def)
    with all' s' show ?thesis by (simp add: gen_inv_def generations_def)
  next
    case (UploadCont cl input)
    with r nu show ?thesis by (auto simp: resume_def upload_event_def split: response.splits)
  next
    case PersistCont
    with r obtain now res where
      s': "s' = \<lparr>app = persistLibrary_resume now res (app s), inflight = ?fl\<rparr>"
      by (auto simp: resume_def split: response.splits)
    from PersistCont pi have "\<not> is_generation (inflight s ! i)"
      by (simp add: paired_def is_play_def)
    from filter_drop_nth_other[OF i, of is_generation, OF this]
    have eq: "filter is_generation ?fl = filter is_generation (inflight s)" .
    have "status (persistLibrary_resume now res (app s)) = status (app s)"
      by (simp add: persistLibrary_resume_def split: outcome.splits)
    with inv all' eq s' show ?thesis by (simp add: gen_inv_def generations_def)
  next
    case RefreshCont
    with r obtain now res where
      s': "s' = \<lparr>app = refreshLibrary_resume now res (app s), inflight = ?fl\<rparr>"
      by (auto simp: resume_def split: response.splits)
    from RefreshCont pi have "\<not> is_generation (inflight s ! i)"
      by (simp add: paired_def is_play_def)
    from filter_drop_nth_other[OF i, of is_generation, OF this]
    have eq: "filter is_generation ?fl = filter is_generation (inflight s)" .
    have "status (refreshLibrary_resume now res (app s)) = status (app s)"
      by (simp add: refreshLibrary_resume_def Let_def split: outcome.splits option.splits)
    with inv all' eq s' show ?thesis by (simp add: gen_inv_def generations_def)
  qed
qed

lemma gen_inv_handle:
  assumes inv: "gen_inv s" and nu: "\<not> upload_event e"
  shows "gen_inv (handle e s)"
proof (cases e)
  case (PlayClick ch)
  with gen_inv_play[OF inv] show ?thesis by (simp add: handle_def)
next
  case OpenUploader
  with inv show ?thesis by (simp add: handle_def gen_inv_app)
next
  case OpenSyncModal
  with inv show ?thesis by (simp add: handle_def gen_inv_app)
next
  case CloseUploader
  with inv show ?thesis by (simp add: handle_def gen_inv_app)
next
  case CloseSyncModal
  with inv show ?thesis by (simp add: handle_def gen_inv_app)
next
  case (UploadSubmit input)
  with nu show ?thesis by (simp add: upload_event_def)
next
  case (DeleteClick ident confirmed now)
  have "gen_inv (issue PersistCont (handleDeleteBook (capture (app s)) ident confirmed now (app s)) (inflight s))"
    by (rule gen_inv_issue_other)
       (use inv in \<open>auto simp: handleDeleteBook_status is_play_def dest: handleDeleteBook_request\<close>)
  with DeleteClick show ?thesis by (simp add: handle_def)
next
  case (SelectBook b)
  with inv show ?thesis by (simp add: handle_def gen_inv_app)
next
  case (SyncUpdate n)
  with inv show ?thesis by (simp add: handle_def gen_inv_app handleSyncUpdate_status)
next
  case Mount
  with gen_inv_refresh[OF inv] show ?thesis by (simp add: handle_def)
next
  case IntervalTick
  with gen_inv_refresh[OF inv] show ?thesis by (simp add: handle_def)
next
  case (TimerFired i)
  with gen_inv_refresh[OF inv] inv show ?thesis by (simp add: handle_def timer_fired_def)
next
  case (Settled i rsp)
  with inv nu show ?thesis
    by (auto simp: handle_def split: option.splits intro: gen_inv_settled)
qed

lemma gen_inv_after_render: "gen_inv s \<Longrightarrow> gen_inv (after_render before s)"
  by (simp add: after_render_def gen_inv_refresh)

lemma gen_inv_step: "gen_inv s \<Longrightarrow> \<not> upload_event e \<Longrightarrow> gen_inv (step e s)"
  by (simp add: step_def gen_inv_after_render gen_inv_handle)

lemma gen_inv_run: "gen_inv s \<Longrightarrow> \<forall>e\<in>set es. \<not> upload_event e \<Longrightarrow> gen_inv (run es s)"
  by (induction es arbitrary: s) (simp_all add: gen_inv_step)

subsection \<open>What the play button's guard achieves\<close>

text \<open>
  While the status is \<^verbatim>\<open>GENERATING_AUDIO\<close> every play button is disabled, so a click
  calls nothing. In every run that starts with nothing in flight and in which no upload
  is submitted or completed, at most one generation request is in flight at any time, and
  while one is in flight the status is \<^verbatim>\<open>GENERATING_AUDIO\<close>.
\<close>

lemma play_button_guards_generation:
  "(status st = GENERATING_AUDIO \<longrightarrow> playButton_click chapter st = (st, None))
   \<and> (inflight s = [] \<and> (\<forall>e\<in>set es. \<not> upload_event e)
        \<longrightarrow> length (generations (run es s)) \<le> 1
            \<and> (generations (run es s) = [] \<or> status (app (run es s)) = GENERATING_AUDIO))"
proof (intro conjI impI)
  assume "status st = GENERATING_AUDIO"
  then show "playButton_click chapter st = (st, None)"
    by (simp add: playButton_click_def playButton_disabled_def)
next
  assume a: "inflight s = [] \<and> (\<forall>e\<in>set es. \<not> upload_event e)"
  then have "gen_inv s" by (simp add: gen_inv_def generations_def)
  with a have g: "gen_inv (run es s)" by (simp add: gen_inv_run)
  then show "length (generations (run es s)) \<le> 1" by (simp add: gen_inv_def)
  from g show "generations (run es s) = [] \<or> status (app (run es s)) = GENERATING_AUDIO"
    by (simp add: gen_inv_def)
qed

subsection \<open>The map of handleChapterPlay\<close>

text \<open>
  The new list has the books of the old one at the same places; a book differs from the
  old one in its chapters at most, and a chapter is changed (it gets the reference,
  nothing else) exactly when a book is selected, its book has that book's id, and it has
  the chapter's id. Where no such chapter exists the list is returned as it is.
\<close>

lemma attach_audio_by_identity:
  "length (play_updatedBooks bks sel chapter url) = length bks
   \<and> (\<forall>i<length bks.
         play_updatedBooks bks sel chapter url ! i
           = (bks ! i)\<lparr>chapters := chapters (play_updatedBooks bks sel chapter url ! i)\<rparr>
         \<and> length (chapters (play_updatedBooks bks sel chapter url ! i)) = length (chapters (bks ! i))
         \<and> (\<forall>j<length (chapters (bks ! i)).
               chapters (play_updatedBooks bks sel chapter url ! i) ! j
                 = (if (\<exists>sb. sel = Some sb \<and> b_id (bks ! i) = b_id sb)
                       \<and> c_id (chapters (bks ! i) ! j) = c_id chapter
                    then (chapters (bks ! i) ! j)\<lparr>audioUrl := Str url\<rparr>
                    else chapters (bks ! i) ! j)))
   \<and> ((\<forall>b\<in>set bks. \<forall>sb. sel = Some sb \<and> b_id b = b_id sb
            \<longrightarrow> (\<forall>c\<in>set (chapters b). c_id c \<noteq> c_id chapter))
        \<longrightarrow> play_updatedBooks bks sel chapter url = bks)"
proof (intro conjI allI impI)
  show "length (play_updatedBooks bks sel chapter url) = length bks"
    by (simp add: play_updatedBooks_def)
next
  fix i assume "i < length bks"
  then show "play_updatedBooks bks sel chapter url ! i
           = (bks ! i)\<lparr>chapters := chapters (play_updatedBooks bks sel chapter url ! i)\<rparr>"
    by (simp add: play_updatedBooks_def updatedBook_def)
next
  fix i assume "i < length bks"
  then show "length (chapters (play_updatedBooks bks sel chapter url ! i)) = length (chapters (bks ! i))"
    by (simp add: play_updatedBooks_def updatedBook_def updatedChapters_def)
next
  fix i j assume "i < length bks" "j < length (chapters (bks ! i))"
  then show "chapters (play_updatedBooks bks sel chapter url ! i) ! j
                 = (if (\<exists>sb. sel = Some sb \<and> b_id (bks ! i) = b_id sb)
                       \<and> c_id (chapters (bks ! i) ! j) = c_id chapter
                    then (chapters (bks ! i) ! j)\<lparr>audioUrl := Str url\<rparr>
                    else chapters (bks ! i) ! j)"
    by (cases sel) (simp_all add: play_updatedBooks_def updatedBook_def updatedChapters_def is_selected_def)
next
  assume m: "\<forall>b\<in>set bks. \<forall>sb. sel = Some sb \<and> b_id b = b_id sb
            \<longrightarrow> (\<forall>c\<in>set (chapters b). c_id c \<noteq> c_id chapter)"
  have "\<forall>b\<in>set bks. is_selected sel b \<longrightarrow> (\<forall>c\<in>set (chapters b). c_id c \<noteq> c_id chapter)"
    using m by (cases sel) (simp_all add: is_selected_def)
  then show "play_updatedBooks bks sel chapter url = bks"
    by (rule play_updatedBooks_same)
qed

subsection \<open>What refreshLibrary reads of its closure\<close>

lemma refreshLibrary_begin_cong:
  assumes "provider (cl_syncState c1) = provider (cl_syncState c2)"
    and "githubToken (cl_syncState c1) = githubToken (cl_syncState c2)"
    and "gistId (cl_syncState c1) = gistId (cl_syncState c2)"
    and "roomId (cl_syncState c1) = roomId (cl_syncState c2)"
  shows "refreshLibrary_begin c1 silent st = refreshLibrary_begin c2 silent st"
proof -
  have "refreshLibrary_request c1 = refreshLibrary_request c2"
    using assms by (simp add: refreshLibrary_request_def Let_def)
  then show ?thesis by (simp add: refreshLibrary_begin_def)
qed

section \<open>The generation cache\<close>

text \<open>
  C1. A chapter whose audio reference is set (the handler's own test: \<^verbatim>\<open>chapter.audioUrl\<close>
  is truthy, that is present and not the empty string) is played from the cache:
  \<^verbatim>\<open>handleChapterPlay\<close> issues no request at all, changes nothing but the active
  chapter, which becomes the chapter with its reference, and a second call gives the same
  result as the first.
\<close>

theorem C1_cached_audio_is_reused:
  assumes "truthy (audioUrl chapter)"
  shows "handleChapterPlay_begin cl chapter st = (st\<lparr>activeChapter := Some chapter\<rparr>, None)
       \<and> books (fst (handleChapterPlay_begin cl chapter st)) = books st
       \<and> map_option audioUrl (activeChapter (fst (handleChapterPlay_begin cl chapter st)))
           = Some (audioUrl chapter)
       \<and> handleChapterPlay_begin cl' chapter (fst (handleChapterPlay_begin cl chapter st))
           = handleChapterPlay_begin cl chapter st"
  using assms by (simp add: handleChapterPlay_begin_def)

text \<open>C1 at the second chapter of the example book, which has its audio.\<close>

theorem C1_cached_audio_is_reused_witness:
  "truthy (audioUrl ex_chapter2)
   \<and> handleChapterPlay_begin (capture ex_state) ex_chapter2 ex_state
       = (ex_state\<lparr>activeChapter := Some ex_chapter2\<rparr>, None)
   \<and> map_option audioUrl
        (activeChapter (fst (handleChapterPlay_begin (capture ex_state) ex_chapter2 ex_state)))
       = Some (Str ''blob:a2'')"
proof -
  have t: "truthy (audioUrl ex_chapter2)"
    by (simp add: truthy_def ex_chapter2_def)
  have u: "audioUrl ex_chapter2 = Str ''blob:a2''"
    by (simp add: ex_chapter2_def)
  from C1_cached_audio_is_reused[OF t, of "capture ex_state" ex_state "capture ex_state"] t u
  show ?thesis by simp
qed

text \<open>
  C2, where the code breaks it. The guard is there: while the status is
  \<^verbatim>\<open>GENERATING_AUDIO\<close> the play button is disabled and a click calls nothing. But the
  status is one variable shared with the upload. In \<open>ex_upload_race\<close> a chapter is played
  while an extraction runs; the extraction completes and \<^verbatim>\<open>handleUpload\<close> sets the
  status to \<^verbatim>\<open>IDLE\<close> although the generation is still in flight; the play button is
  enabled again, and the next click issues a second generation request beside the first.
  The same happens when the uploader is closed before the first play.
\<close>

theorem C2_upload_defeats_the_guard:
  "playButton_click ex_chapter3 ex_generating_state = (ex_generating_state, None)
   \<and> map fst (generations (run ex_upload_race ex_sys))
       = [GenerateAudio ''alif'' ''Kore'', GenerateAudio ''jim'' ''Kore'']
   \<and> status (app (run ex_upload_race ex_sys)) = GENERATING_AUDIO
   \<and> map fst (generations (run ex_upload_race_closed ex_sys))
       = [GenerateAudio ''alif'' ''Kore'', GenerateAudio ''jim'' ''Kore'']
   \<and> status (app (run ex_upload_race_closed ex_sys)) = GENERATING_AUDIO"
proof -
  have 1: "playButton_click ex_chapter3 ex_generating_state = (ex_generating_state, None)"
    by (simp add: playButton_click_def playButton_disabled_def ex_generating_state_def)
  have 2: "map fst (generations (run ex_upload_race ex_sys))
       = [GenerateAudio ''alif'' ''Kore'', GenerateAudio ''jim'' ''Kore'']
   \<and> status (app (run ex_upload_race ex_sys)) = GENERATING_AUDIO"
    by code_simp
  have 3: "map fst (generations (run ex_upload_race_closed ex_sys))
       = [GenerateAudio ''alif'' ''Kore'', GenerateAudio ''jim'' ''Kore'']
   \<and> status (app (run ex_upload_race_closed ex_sys)) = GENERATING_AUDIO"
    by code_simp
  from 1 2 3 show ?thesis by simp
qed

text \<open>
  C7, where the code breaks it. The map of \<^verbatim>\<open>handleChapterPlay\<close> finds book and
  chapter by their ids, but it runs over the \<^verbatim>\<open>books\<close> of the render in which the
  play was clicked, and \<^verbatim>\<open>setBooks(updatedBooks)\<close> writes that list over the current
  one. In \<open>ex_pull_during_generation\<close> a pull replaces the library while the audio is
  generated; the book \<open>b1\<close> is then missing from the library. When the audio arrives,
  the library is not left as it is: it becomes the old list again, with the audio
  attached, and the pulled book \<open>b9\<close> is gone.
\<close>

theorem C7_stale_list_written_back:
  "books (app (run ex_pull_during_generation ex_sys)) = [ex_remote_book]
   \<and> b_id ex_remote_book = ''b9''
   \<and> b_id ex_book = ''b1''
   \<and> books (app (run (ex_pull_during_generation @ [ex_audio_arrives]) ex_sys))
       = [ex_book\<lparr>chapters := [ex_chapter1\<lparr>audioUrl := Str ''blob:a1''\<rparr>, ex_chapter2, ex_chapter3]\<rparr>]"
  by code_simp

text \<open>
  C9. When the generation request is rejected, the status becomes \<^verbatim>\<open>ERROR\<close>, the
  book list, the selected book and the active chapter are untouched (so no chapter gets
  a reference), the failure is reported (\<^verbatim>\<open>console.error\<close> and an \<^verbatim>\<open>alert\<close>), and the
  handler ends there: it sets no timer, and in the transition system the rejected request
  leaves the requests in flight without adding one.
\<close>

theorem C9_generation_failure:
  "status (handleChapterPlay_resume cl chapter (Rejected msg) st) = ERROR
   \<and> books (handleChapterPlay_resume cl chapter (Rejected msg) st) = books st
   \<and> selectedBook (handleChapterPlay_resume cl chapter (Rejected msg) st) = selectedBook st
   \<and> activeChapter (handleChapterPlay_resume cl chapter (Rejected msg) st) = activeChapter st
   \<and> alerts (handleChapterPlay_resume cl chapter (Rejected msg) st)
       = alerts st @ [''Failed to generate audio.'']
   \<and> console (handleChapterPlay_resume cl chapter (Rejected msg) st)
       = console st @ [ConsoleError msg]
   \<and> timers (handleChapterPlay_resume cl chapter (Rejected msg) st) = timers st
   \<and> resume (ChapterPlayCont cl chapter) (AudioResponse (Rejected msg)) fl st
       = Some \<lparr>app = handleChapterPlay_resume cl chapter (Rejected msg) st, inflight = fl\<rparr>"
  by (simp add: handleChapterPlay_resume_def resume_def)


section \<open>The synchronization engine\<close>

text \<open>
  C3. A pull that resolves with nothing (\<^verbatim>\<open>null\<close>) only clears \<^verbatim>\<open>isSyncing\<close>: the
  book list, the time stamp \<^verbatim>\<open>lastSynced\<close> and the provider stay as they are, and
  nothing is logged or reported, so the \<^verbatim>\<open>catch\<close> branch is not taken. With the provider
  \<^verbatim>\<open>'none'\<close> no request is issued at all, \<^verbatim>\<open>remoteBooks\<close> stays \<^verbatim>\<open>null\<close>, and the
  call ends in the same way.
\<close>

theorem C3_absent_pull_changes_nothing:
  "refreshLibrary_resume now (Resolved None) st = st\<lparr>syncState := (syncState st)\<lparr>isSyncing := False\<rparr>\<rparr>
   \<and> books (refreshLibrary_resume now (Resolved None) st) = books st
   \<and> lastSynced (syncState (refreshLibrary_resume now (Resolved None) st)) = lastSynced (syncState st)
   \<and> \<not> isSyncing (syncState (refreshLibrary_resume now (Resolved None) st))
   \<and> provider (syncState (refreshLibrary_resume now (Resolved None) st)) = provider (syncState st)
   \<and> console (refreshLibrary_resume now (Resolved None) st) = console st
   \<and> alerts (refreshLibrary_resume now (Resolved None) st) = alerts st
   \<and> (provider (cl_syncState cl) = NoProvider \<longrightarrow>
        refreshLibrary_begin cl silent st = (st\<lparr>syncState := (syncState st)\<lparr>isSyncing := False\<rparr>\<rparr>, None))"
  by (simp add: refreshLibrary_resume_def refreshLibrary_begin_def refreshLibrary_request_def)

text \<open>C3 at the local-only page, and at a page whose pull of an empty room returns.\<close>

theorem C3_absent_pull_changes_nothing_witness:
  "provider (cl_syncState (capture ex_local_state)) = NoProvider
   \<and> refreshLibrary_begin (capture ex_local_state) False ex_local_state = (ex_local_state, None)
   \<and> books (refreshLibrary_resume 50 (Resolved None) ex_syncing_state) = [ex_book]
   \<and> lastSynced (syncState (refreshLibrary_resume 50 (Resolved None) ex_syncing_state)) = Some 7
   \<and> \<not> isSyncing (syncState (refreshLibrary_resume 50 (Resolved None) ex_syncing_state))"
proof -
  have p: "provider (cl_syncState (capture ex_local_state)) = NoProvider"
    by (simp add: capture_def ex_local_state_def)
  have e: "ex_local_state\<lparr>syncState := (syncState ex_local_state)\<lparr>isSyncing := False\<rparr>\<rparr> = ex_local_state"
    by (simp add: ex_local_state_def ex_state_def ex_syncState_def)
  have b: "books ex_syncing_state = [ex_book]" "lastSynced (syncState ex_syncing_state) = Some 7"
    by (simp_all add: ex_syncing_state_def ex_state_def ex_syncState_def)
  from C3_absent_pull_changes_nothing[of 50 ex_syncing_state "capture ex_local_state" False] b
  have 1: "books (refreshLibrary_resume 50 (Resolved None) ex_syncing_state) = [ex_book]
       \<and> lastSynced (syncState (refreshLibrary_resume 50 (Resolved None) ex_syncing_state)) = Some 7
       \<and> \<not> isSyncing (syncState (refreshLibrary_resume 50 (Resolved None) ex_syncing_state))"
    by simp
  from C3_absent_pull_changes_nothing[of 50 ex_local_state "capture ex_local_state" False] p e
  have 2: "refreshLibrary_begin (capture ex_local_state) False ex_local_state = (ex_local_state, None)"
    by simp
  from p 1 2 show ?thesis by simp
qed

text \<open>
  C4, what the two paths do with \<^verbatim>\<open>UNAUTHORIZED\<close>. The push path (\<^verbatim>\<open>persistLibrary\<close>)
  alerts the user and opens the sync modal, and leaves the provider as it is. The pull
  path (\<^verbatim>\<open>refreshLibrary\<close>) sets the provider to \<^verbatim>\<open>'none'\<close> and writes a warning to the
  console; it shows no alert and does not open the modal. Each path does the half of the
  claim that the other one leaves out.
\<close>

theorem C4_unauthorized_on_each_path:
  "provider (syncState (persistLibrary_resume now (Rejected ''UNAUTHORIZED'') st)) = provider (syncState st)
   \<and> showSyncModal (persistLibrary_resume now (Rejected ''UNAUTHORIZED'') st)
   \<and> alerts (persistLibrary_resume now (Rejected ''UNAUTHORIZED'') st)
       = alerts st @ [''Sync failed: GitHub token invalid. Reconnecting...'']
   \<and> provider (syncState (refreshLibrary_resume now (Rejected ''UNAUTHORIZED'') st)) = NoProvider
   \<and> showSyncModal (refreshLibrary_resume now (Rejected ''UNAUTHORIZED'') st) = showSyncModal st
   \<and> alerts (refreshLibrary_resume now (Rejected ''UNAUTHORIZED'') st) = alerts st
   \<and> console (refreshLibrary_resume now (Rejected ''UNAUTHORIZED'') st)
       = console st @ [ConsoleWarn ''GitHub session expired or token revoked.'']
   \<and> provider (syncState ex_github_state) = Github
   \<and> provider (syncState (persistLibrary_resume 50 (Rejected ''UNAUTHORIZED'') ex_github_state)) = Github
   \<and> showSyncModal (refreshLibrary_resume 50 (Rejected ''UNAUTHORIZED'') ex_github_state) = False
   \<and> alerts (refreshLibrary_resume 50 (Rejected ''UNAUTHORIZED'') ex_github_state) = []"
  by (simp add: persistLibrary_resume_def refreshLibrary_resume_def ex_github_state_def ex_state_def)

text \<open>
  C5, as the code has it. A pull that completes with a snapshot always replaces the book
  list with it, stamps \<^verbatim>\<open>lastSynced\<close> and sets \<^verbatim>\<open>hasLoadedInitially\<close>, in whatever state
  it completes: the continuation holds nothing of the configuration the pull was issued
  under and compares nothing. The provider of the state it completes in stays.
\<close>

theorem C5_completed_pull_always_applies:
  "books (refreshLibrary_resume now (Resolved (Some remoteBooks)) st) = remoteBooks
   \<and> lastSynced (syncState (refreshLibrary_resume now (Resolved (Some remoteBooks)) st)) = Some now
   \<and> hasLoadedInitially (refreshLibrary_resume now (Resolved (Some remoteBooks)) st)
   \<and> provider (syncState (refreshLibrary_resume now (Resolved (Some remoteBooks)) st))
       = provider (syncState st)
   \<and> resume RefreshCont (PullResponse now res) fl st
       = Some \<lparr>app = refreshLibrary_resume now res st, inflight = fl\<rparr>"
  by (simp add: refreshLibrary_resume_def resume_def)

text \<open>
  C5 as stated fails: the pull of the public room is issued, the user switches to the
  private provider while it is in flight, and the completing pull overwrites the book
  list with the public room's snapshot.
\<close>

theorem C5_counterexample:
  "map fst (inflight (run [Mount] ex_sys)) = [PullFromPublic (Str ''room'')]
   \<and> provider (syncState (app (run [Mount] ex_sys))) = Public
   \<and> provider (syncState (app (run ex_switch_before ex_sys))) = Github
   \<and> books (app (run ex_switch_before ex_sys)) = [ex_book]
   \<and> provider (syncState (app (run (ex_switch_before @ [ex_pull_completes]) ex_sys))) = Github
   \<and> books (app (run (ex_switch_before @ [ex_pull_completes]) ex_sys)) = [ex_remote_book]"
  by code_simp

text \<open>
  C6, as the code has it. \<^verbatim>\<open>refreshLibrary\<close> never reads \<^verbatim>\<open>isSyncing\<close>: the request it
  issues is the same whether the flag is set or not, and with the public provider, or the
  private one with token and gist id, every call issues its pull.
\<close>

theorem C6_pull_ignores_in_flight_flag:
  "snd (refreshLibrary_begin cl silent (st\<lparr>syncState := (syncState st)\<lparr>isSyncing := True\<rparr>\<rparr>))
     = snd (refreshLibrary_begin cl silent st)
   \<and> (provider (cl_syncState cl) = Public \<longrightarrow>
        snd (refreshLibrary_begin cl silent st)
          = Some (PullFromPublic (if truthy (roomId (cl_syncState cl)) then roomId (cl_syncState cl) else Undefined)))
   \<and> (provider (cl_syncState cl) = Github \<and> truthy (githubToken (cl_syncState cl))
        \<and> truthy (gistId (cl_syncState cl)) \<longrightarrow>
        snd (refreshLibrary_begin cl silent st)
          = Some (PullFromGitHub (str (githubToken (cl_syncState cl))) (str (gistId (cl_syncState cl)))))"
  by (simp add: refreshLibrary_begin_def refreshLibrary_request_def Let_def split: option.splits)

text \<open>C6 at a page whose \<^verbatim>\<open>isSyncing\<close> is set: the interval's silent call pulls all the same.\<close>

theorem C6_pull_ignores_in_flight_flag_witness:
  "isSyncing (syncState ex_syncing_state)
   \<and> provider (cl_syncState (capture ex_syncing_state)) = Public
   \<and> snd (refreshLibrary_begin (capture ex_syncing_state) True ex_syncing_state)
       = Some (PullFromPublic (Str ''room''))"
proof -
  have p: "isSyncing (syncState ex_syncing_state)"
    "provider (cl_syncState (capture ex_syncing_state)) = Public"
    "roomId (cl_syncState (capture ex_syncing_state)) = Str ''room''"
    by (simp_all add: capture_def ex_syncing_state_def ex_state_def ex_syncState_def)
  have "snd (refreshLibrary_begin (capture ex_syncing_state) True ex_syncing_state)
          = Some (PullFromPublic (Str ''room''))"
    using conjunct1[OF conjunct2[OF
          C6_pull_ignores_in_flight_flag[of "capture ex_syncing_state" True ex_syncing_state]]] p
    by (simp add: truthy_def)
  with p show ?thesis by simp
qed

text \<open>
  C6 as stated fails: the pull issued at mount sets \<^verbatim>\<open>isSyncing\<close>, and the interval's
  call issues a second pull of the same room while the first is in flight. Likewise after
  a change of room: the effect pulls at once, and the timer of \<^verbatim>\<open>handleSyncUpdate\<close> pulls
  again 100 ms later.
\<close>

theorem C6_counterexample:
  "isSyncing (syncState (app (run [Mount] ex_sys)))
   \<and> map fst (pulls (run [Mount] ex_sys)) = [PullFromPublic (Str ''room'')]
   \<and> map fst (pulls (run ex_slow_pull ex_sys))
       = [PullFromPublic (Str ''room''), PullFromPublic (Str ''room'')]
   \<and> map fst (pulls (run ex_room_switch ex_sys))
       = [PullFromPublic (Str ''room2''), PullFromPublic (Str ''room'')]"
  by code_simp

text \<open>
  C8, as the code has it. \<^verbatim>\<open>handleSyncUpdate\<close> makes the merged state the new
  \<^verbatim>\<open>syncState\<close>; \<^verbatim>\<open>lastSynced\<close> is merged like every other field, so it keeps its
  value unless the update brings one. It writes the provider to local storage, the room id
  when that is not empty, and the token and the gist id (each removed when empty). It
  resets \<^verbatim>\<open>hasLoadedInitially\<close>, closes the modal, leaves the book list alone, and sets
  one timer of 100 ms. A pull with the new configuration is forced either way: when the
  update changes the provider, the room id, the token or the gist id, the effect begins
  \<^verbatim>\<open>refreshLibrary\<close> (not silent) of the new configuration in the same step; when it
  changes none of them, the call of the timer is \<^verbatim>\<open>refreshLibrary\<close> (not silent) of that
  configuration.
\<close>

theorem C8_reconfiguration:
  "syncState (handleSyncUpdate cl newState st) = spread (cl_syncState cl) newState
   \<and> lastSynced (syncState (handleSyncUpdate cl newState st))
       = (case p_lastSynced newState of None \<Rightarrow> lastSynced (cl_syncState cl) | Some v \<Rightarrow> v)
   \<and> getItem ''sync_provider'' (localStorage (handleSyncUpdate cl newState st))
       = Some (provider_string (provider (spread (cl_syncState cl) newState)))
   \<and> (truthy (roomId (spread (cl_syncState cl) newState)) \<longrightarrow>
        getItem ''sync_room_id'' (localStorage (handleSyncUpdate cl newState st))
          = Some (str (roomId (spread (cl_syncState cl) newState))))
   \<and> getItem ''sync_github_token'' (localStorage (handleSyncUpdate cl newState st))
       = (if truthy (githubToken (spread (cl_syncState cl) newState))
          then Some (str (githubToken (spread (cl_syncState cl) newState))) else None)
   \<and> getItem ''sync_gist_id'' (localStorage (handleSyncUpdate cl newState st))
       = (if truthy (gistId (spread (cl_syncState cl) newState))
          then Some (str (gistId (spread (cl_syncState cl) newState))) else None)
   \<and> \<not> hasLoadedInitially (handleSyncUpdate cl newState st)
   \<and> \<not> showSyncModal (handleSyncUpdate cl newState st)
   \<and> books (handleSyncUpdate cl newState st) = books st
   \<and> map t_delay (timers (handleSyncUpdate cl newState st)) = map t_delay (timers st) @ [100]
   \<and> (showSyncModal (app s)
        \<and> deps (handleSyncUpdate (capture (app s)) newState (app s)) \<noteq> deps (app s) \<longrightarrow>
        step (SyncUpdate newState) s
          = issue RefreshCont
              (refreshLibrary_begin (capture (handleSyncUpdate (capture (app s)) newState (app s))) False
                 (handleSyncUpdate (capture (app s)) newState (app s)))
              (inflight s))
   \<and> (deps (handleSyncUpdate (capture st) newState st) = deps st \<longrightarrow>
        timer_fired (last (timers (handleSyncUpdate (capture st) newState st))) st'
          = refreshLibrary_begin (capture (handleSyncUpdate (capture st) newState st)) False st')"
proof -
  have handler:
    "syncState (handleSyncUpdate cl newState st) = spread (cl_syncState cl) newState
   \<and> lastSynced (syncState (handleSyncUpdate cl newState st))
       = (case p_lastSynced newState of None \<Rightarrow> lastSynced (cl_syncState cl) | Some v \<Rightarrow> v)
   \<and> getItem ''sync_provider'' (localStorage (handleSyncUpdate cl newState st))
       = Some (provider_string (provider (spread (cl_syncState cl) newState)))
   \<and> (truthy (roomId (spread (cl_syncState cl) newState)) \<longrightarrow>
        getItem ''sync_room_id'' (localStorage (handleSyncUpdate cl newState st))
          = Some (str (roomId (spread (cl_syncState cl) newState))))
   \<and> getItem ''sync_github_token'' (localStorage (handleSyncUpdate cl newState st))
       = (if truthy (githubToken (spread (cl_syncState cl) newState))
          then Some (str (githubToken (spread (cl_syncState cl) newState))) else None)
   \<and> getItem ''sync_gist_id'' (localStorage (handleSyncUpdate cl newState st))
       = (if truthy (gistId (spread (cl_syncState cl) newState))
          then Some (str (gistId (spread (cl_syncState cl) newState))) else None)
   \<and> \<not> hasLoadedInitially (handleSyncUpdate cl newState st)
   \<and> \<not> showSyncModal (handleSyncUpdate cl newState st)
   \<and> books (handleSyncUpdate cl newState st) = books st
   \<and> map t_delay (timers (handleSyncUpdate cl newState st)) = map t_delay (timers st) @ [100]"
    by (simp add: handleSyncUpdate_def Let_def getItem_setItem getItem_removeItem
        spread_def split: option.splits)
  have effect: "showSyncModal (app s)
        \<and> deps (handleSyncUpdate (capture (app s)) newState (app s)) \<noteq> deps (app s) \<longrightarrow>
        step (SyncUpdate newState) s
          = issue RefreshCont
              (refreshLibrary_begin (capture (handleSyncUpdate (capture (app s)) newState (app s))) False
                 (handleSyncUpdate (capture (app s)) newState (app s)))
              (inflight s)"
    by (simp add: step_def handle_def after_render_def)
  have timer: "deps (handleSyncUpdate (capture st) newState st) = deps st \<longrightarrow>
        timer_fired (last (timers (handleSyncUpdate (capture st) newState st))) st'
          = refreshLibrary_begin (capture (handleSyncUpdate (capture st) newState st)) False st'"
  proof
    assume d: "deps (handleSyncUpdate (capture st) newState st) = deps st"
    have t: "t_closure (last (timers (handleSyncUpdate (capture st) newState st))) = capture st"
      by (simp add: handleSyncUpdate_def Let_def)
    have "refreshLibrary_begin (capture st) False st'
        = refreshLibrary_begin (capture (handleSyncUpdate (capture st) newState st)) False st'"
      by (rule refreshLibrary_begin_cong) (use d in \<open>simp_all add: deps_def capture_def\<close>)
    with t show "timer_fired (last (timers (handleSyncUpdate (capture st) newState st))) st'
          = refreshLibrary_begin (capture (handleSyncUpdate (capture st) newState st)) False st'"
      by (simp add: timer_fired_def)
  qed
  from handler effect timer show ?thesis by blast
qed

text \<open>
  C8 at the example page: the switch to the private provider is written to local storage;
  the move to another room makes the effect pull that room in the same step; and after an
  update that changes nothing the timer pulls the room of the page.
\<close>

theorem C8_reconfiguration_witness:
  "truthy (roomId (spread (cl_syncState (capture ex_state)) ex_to_github))
   \<and> getItem ''sync_room_id'' (localStorage (handleSyncUpdate (capture ex_state) ex_to_github ex_state))
       = Some ''room''
   \<and> getItem ''sync_provider'' (localStorage (handleSyncUpdate (capture ex_state) ex_to_github ex_state))
       = Some ''github''
   \<and> getItem ''sync_github_token'' (localStorage (handleSyncUpdate (capture ex_state) ex_to_github ex_state))
       = Some ''ghp_token''
   \<and> \<not> hasLoadedInitially (handleSyncUpdate (capture ex_state) ex_to_github ex_state)
   \<and> showSyncModal (app ex_modal_sys)
   \<and> deps (handleSyncUpdate (capture (app ex_modal_sys)) ex_to_room2 (app ex_modal_sys)) \<noteq> deps (app ex_modal_sys)
   \<and> map fst (inflight (step (SyncUpdate ex_to_room2) ex_modal_sys)) = [PullFromPublic (Str ''room2'')]
   \<and> deps (handleSyncUpdate (capture ex_state) ex_empty_update ex_state) = deps ex_state
   \<and> snd (timer_fired (last (timers (handleSyncUpdate (capture ex_state) ex_empty_update ex_state)))
            (handleSyncUpdate (capture ex_state) ex_empty_update ex_state))
       = Some (PullFromPublic (Str ''room''))"
proof -
  have u: "spread (cl_syncState (capture ex_state)) ex_to_github
      = \<lparr>provider = Github, roomId = Str ''room'', githubToken = Str ''ghp_token'',
         gistId = Str ''gist1'', lastSynced = Some 7, isSyncing = False\<rparr>"
    by (simp add: spread_def capture_def ex_state_def ex_syncState_def ex_to_github_def)
  have t: "truthy (roomId (spread (cl_syncState (capture ex_state)) ex_to_github))"
    by (simp add: u truthy_def)
  note a = C8_reconfiguration[of "capture ex_state" ex_to_github ex_state ex_modal_sys ex_state]
  from a t u
  have 1: "getItem ''sync_room_id'' (localStorage (handleSyncUpdate (capture ex_state) ex_to_github ex_state))
       = Some ''room''
   \<and> getItem ''sync_provider'' (localStorage (handleSyncUpdate (capture ex_state) ex_to_github ex_state))
       = Some ''github''
   \<and> getItem ''sync_github_token'' (localStorage (handleSyncUpdate (capture ex_state) ex_to_github ex_state))
       = Some ''ghp_token''
   \<and> \<not> hasLoadedInitially (handleSyncUpdate (capture ex_state) ex_to_github ex_state)"
    by (simp add: truthy_def str_def provider_string_def)
  have m: "showSyncModal (app ex_modal_sys)"
    by (simp add: ex_modal_sys_def)
  have d: "deps (handleSyncUpdate (capture (app ex_modal_sys)) ex_to_room2 (app ex_modal_sys))
            \<noteq> deps (app ex_modal_sys)"
    by code_simp
  note b = C8_reconfiguration[of "capture ex_state" ex_to_room2 ex_state ex_modal_sys ex_state]
  from b m d
  have e: "step (SyncUpdate ex_to_room2) ex_modal_sys
          = issue RefreshCont
              (refreshLibrary_begin (capture (handleSyncUpdate (capture (app ex_modal_sys)) ex_to_room2 (app ex_modal_sys))) False
                 (handleSyncUpdate (capture (app ex_modal_sys)) ex_to_room2 (app ex_modal_sys)))
              (inflight ex_modal_sys)"
    by blast
  have "map fst (inflight (issue RefreshCont
              (refreshLibrary_begin (capture (handleSyncUpdate (capture (app ex_modal_sys)) ex_to_room2 (app ex_modal_sys))) False
                 (handleSyncUpdate (capture (app ex_modal_sys)) ex_to_room2 (app ex_modal_sys)))
              (inflight ex_modal_sys))) = [PullFromPublic (Str ''room2'')]"
    by code_simp
  with e have 2: "map fst (inflight (step (SyncUpdate ex_to_room2) ex_modal_sys)) = [PullFromPublic (Str ''room2'')]"
    by simp
  have d': "deps (handleSyncUpdate (capture ex_state) ex_empty_update ex_state) = deps ex_state"
    by code_simp
  note c = C8_reconfiguration[of "capture ex_state" ex_empty_update ex_state ex_modal_sys
      "handleSyncUpdate (capture ex_state) ex_empty_update ex_state"]
  from c d'
  have f: "timer_fired (last (timers (handleSyncUpdate (capture ex_state) ex_empty_update ex_state)))
            (handleSyncUpdate (capture ex_state) ex_empty_update ex_state)
          = refreshLibrary_begin (capture (handleSyncUpdate (capture ex_state) ex_empty_update ex_state)) False
              (handleSyncUpdate (capture ex_state) ex_empty_update ex_state)"
    by blast
  have "snd (refreshLibrary_begin (capture (handleSyncUpdate (capture ex_state) ex_empty_update ex_state)) False
              (handleSyncUpdate (capture ex_state) ex_empty_update ex_state))
        = Some (PullFromPublic (Str ''room''))"
    by code_simp
  with f have 3: "snd (timer_fired (last (timers (handleSyncUpdate (capture ex_state) ex_empty_update ex_state)))
            (handleSyncUpdate (capture ex_state) ex_empty_update ex_state))
       = Some (PullFromPublic (Str ''room''))"
    by simp
  from t 1 m d 2 d' 3 show ?thesis by simp
qed

text \<open>
  C8 as stated fails in two places. The example page was last synchronized at time 7, and
  after the switch to the private provider \<^verbatim>\<open>lastSynced\<close> is still 7. And an update
  that clears the room id leaves the old room id in local storage, so the new state is
  not what is stored.
\<close>

theorem C8_counterexample:
  "lastSynced (syncState ex_state) = Some 7
   \<and> provider (syncState (handleSyncUpdate (capture ex_state) ex_to_github ex_state)) = Github
   \<and> lastSynced (syncState (handleSyncUpdate (capture ex_state) ex_to_github ex_state)) = Some 7
   \<and> roomId (syncState (handleSyncUpdate (capture ex_stored_state) ex_clear_room ex_stored_state)) = Null
   \<and> getItem ''sync_room_id''
        (localStorage (handleSyncUpdate (capture ex_stored_state) ex_clear_room ex_stored_state))
       = Some ''room''"
  by code_simp

text \<open>
  C10. When \<^verbatim>\<open>persistLibrary\<close> has nothing to push to (the provider is \<^verbatim>\<open>'none'\<close>, the
  private provider lacks its token or its gist id, or the public provider has no room
  id), it issues no request and sets \<^verbatim>\<open>lastSynced\<close> to the current time at once, as it
  does after a push that resolved.
\<close>

theorem C10_timestamp_without_push:
  assumes "provider (cl_syncState cl) = NoProvider
         \<or> (provider (cl_syncState cl) = Github
             \<and> (\<not> truthy (githubToken (cl_syncState cl)) \<or> \<not> truthy (gistId (cl_syncState cl))))
         \<or> (provider (cl_syncState cl) = Public \<and> \<not> truthy (roomId (cl_syncState cl)))"
  shows "snd (persistLibrary_begin cl now updatedBooks st) = None
       \<and> lastSynced (syncState (fst (persistLibrary_begin cl now updatedBooks st))) = Some now
       \<and> books (fst (persistLibrary_begin cl now updatedBooks st)) = books st
       \<and> lastSynced (syncState (persistLibrary_resume now (Resolved ()) st)) = Some now"
  using assms
  by (auto simp: persistLibrary_begin_def persistLibrary_request_def persistLibrary_resume_def)

text \<open>C10 at the local-only page, and at the private provider without a token.\<close>

theorem C10_timestamp_without_push_witness:
  "provider (cl_syncState (capture ex_local_state)) = NoProvider
   \<and> snd (persistLibrary_begin (capture ex_local_state) 50 [ex_book] ex_local_state) = None
   \<and> lastSynced (syncState (fst (persistLibrary_begin (capture ex_local_state) 50 [ex_book] ex_local_state)))
       = Some 50
   \<and> lastSynced (syncState (fst (persistLibrary_begin (capture ex_tokenless_state) 50 [ex_book] ex_tokenless_state)))
       = Some 50"
proof -
  have p: "provider (cl_syncState (capture ex_local_state)) = NoProvider"
    by (simp add: capture_def ex_local_state_def)
  have q: "provider (cl_syncState (capture ex_tokenless_state)) = Github
             \<and> (\<not> truthy (githubToken (cl_syncState (capture ex_tokenless_state)))
                 \<or> \<not> truthy (gistId (cl_syncState (capture ex_tokenless_state))))"
    by (simp add: capture_def ex_tokenless_state_def ex_state_def ex_syncState_def truthy_def)
  from C10_timestamp_without_push[of "capture ex_local_state" 50 "[ex_book]" ex_local_state] p
  have 1: "snd (persistLibrary_begin (capture ex_local_state) 50 [ex_book] ex_local_state) = None
     \<and> lastSynced (syncState (fst (persistLibrary_begin (capture ex_local_state) 50 [ex_book] ex_local_state)))
       = Some 50"
    by simp
  from C10_timestamp_without_push[of "capture ex_tokenless_state" 50 "[ex_book]" ex_tokenless_state] q
  have 2: "lastSynced (syncState (fst (persistLibrary_begin (capture ex_tokenless_state) 50 [ex_book] ex_tokenless_state)))
       = Some 50"
    by blast
  from p 1 2 show ?thesis by simp
qed

end
